theory Spec2Isabelle
  imports Complex_Main
begin

section \<open>Cells and columns\<close>

text \<open>
  The pipelines work on pandas tables. A table is a list of rows in row order, a row is a
  record of cells. A numeric cell is the value \<^verbatim>\<open>pd.to_numeric(..., errors='coerce')\<close>
  gives it: \<open>Some v\<close> for a number, \<open>None\<close> for NaN or \<^verbatim>\<open><NA>\<close>. Numbers are reals:
  rounding and the infinities of the floating-point type are left out. A key cell is
  \<open>Some k\<close> or \<open>None\<close> (a missing key).
\<close>

type_synonym num = "real option"

definition fmul :: "num \<Rightarrow> num \<Rightarrow> num" where
  \<comment> \<open>the product of two cells: null as soon as one of them is\<close>
  "fmul a b =
     (case a of None \<Rightarrow> None
      | Some x \<Rightarrow> (case b of None \<Rightarrow> None | Some y \<Rightarrow> Some (x * y)))"

definition fillna :: "real \<Rightarrow> num \<Rightarrow> num" where
  "fillna d a = (case a of None \<Rightarrow> Some d | Some x \<Rightarrow> Some x)"

definition fdiv :: "real \<Rightarrow> real \<Rightarrow> num" where
  \<comment> \<open>0 / 0 is NaN. The z-score is the only division of the pipelines, and its
      numerators are all 0 whenever its denominator is.\<close>
  "fdiv a b = (if b = 0 then None else Some (a / b))"

definition gt_num :: "num \<Rightarrow> real \<Rightarrow> bool" where
  \<comment> \<open>\<^verbatim>\<open>cell > t\<close>: False on NaN\<close>
  "gt_num a t = (case a of None \<Rightarrow> False | Some v \<Rightarrow> t < v)"

definition le_num :: "num \<Rightarrow> real \<Rightarrow> bool" where
  \<comment> \<open>\<^verbatim>\<open>cell <= t\<close>: False on NaN\<close>
  "le_num a t = (case a of None \<Rightarrow> False | Some v \<Rightarrow> v \<le> t)"

definition dropna :: "num list \<Rightarrow> real list" where
  "dropna col = concat (map (\<lambda>c. case c of None \<Rightarrow> [] | Some v \<Rightarrow> [v]) col)"

definition mean :: "real list \<Rightarrow> real" where
  "mean xs = sum_list xs / real (length xs)"

definition sq_dev :: "real list \<Rightarrow> real" where
  \<comment> \<open>the sum of the squared deviations from the mean\<close>
  "sq_dev xs = sum_list (map (\<lambda>x. (x - mean xs)\<^sup>2) xs)"

definition series_sum :: "num list \<Rightarrow> real" where
  \<comment> \<open>\<^verbatim>\<open>Series.sum()\<close>: null cells are skipped, the empty sum is 0\<close>
  "series_sum col = sum_list (dropna col)"

definition series_std :: "num list \<Rightarrow> num" where
  \<comment> \<open>\<^verbatim>\<open>Series.std()\<close>: null cells are skipped, ddof = 1 (divide by N - 1), and
      NaN when fewer than two values are left\<close>
  "series_std col =
     (let xs = dropna col
      in if length xs < 2 then None
         else Some (sqrt (sq_dev xs / real (length xs - 1))))"

definition zscore :: "num list \<Rightarrow> num list" where
  \<comment> \<open>\<^verbatim>\<open>scipy.stats.zscore(a)\<close> with its defaults: ddof = 0 (divide by N),
      nan_policy = 'propagate' (one NaN in the input makes every score NaN)\<close>
  "zscore col =
     (let xs = dropna col;
          mn = mean xs;
          sd = sqrt (sq_dev xs / real (length xs))
      in if length xs < length col then map (\<lambda>_. None) col
         else map (\<lambda>x. fdiv (x - mn) sd) xs)"

definition isclose :: "real \<Rightarrow> real \<Rightarrow> real \<Rightarrow> bool" where
  \<comment> \<open>\<^verbatim>\<open>np.isclose(a, b, atol=atol)\<close>: rtol keeps its default 1e-05\<close>
  "isclose a b atol = (\<bar>a - b\<bar> \<le> atol + (1 / 100000) * \<bar>b\<bar>)"

fun duplicated_from :: "'a list \<Rightarrow> 'a list \<Rightarrow> bool list" where
  "duplicated_from seen [] = []"
| "duplicated_from seen (x # xs) = (x \<in> set seen) # duplicated_from (x # seen) xs"

definition duplicated :: "'a list \<Rightarrow> bool list" where
  \<comment> \<open>\<^verbatim>\<open>Series.duplicated()\<close>: True on every occurrence of a value but its first\<close>
  "duplicated col = duplicated_from [] col"

fun drop_duplicates_from :: "('r \<Rightarrow> 'a) \<Rightarrow> 'a list \<Rightarrow> 'r list \<Rightarrow> 'r list" where
  "drop_duplicates_from key seen [] = []"
| "drop_duplicates_from key seen (r # rs) =
     (if key r \<in> set seen then drop_duplicates_from key seen rs
      else r # drop_duplicates_from key (key r # seen) rs)"

definition drop_duplicates :: "('r \<Rightarrow> 'a) \<Rightarrow> 'r list \<Rightarrow> 'r list" where
  \<comment> \<open>\<^verbatim>\<open>df.drop_duplicates(subset=[key], keep='first')\<close>\<close>
  "drop_duplicates key df = drop_duplicates_from key [] df"

definition merge_left ::
  "('l \<Rightarrow> 'k) \<Rightarrow> ('r \<Rightarrow> 'k) \<Rightarrow> ('l \<Rightarrow> 'r option \<Rightarrow> 'o) \<Rightarrow> 'l list \<Rightarrow> 'r list \<Rightarrow> 'o list" where
  \<comment> \<open>\<^verbatim>\<open>pd.merge(left, right, how='left')\<close>: every left row in order, once per right
      row with an equal key (a null key equals a null key), once with null right cells
      when there is none\<close>
  "merge_left kl kr mk ls rs =
     concat (map (\<lambda>l. case filter (\<lambda>r. kr r = kl l) rs of
                         [] \<Rightarrow> [mk l None]
                       | m # ms \<Rightarrow> map (\<lambda>r. mk l (Some r)) (m # ms)) ls)"

definition merge_inner ::
  "('l \<Rightarrow> 'k) \<Rightarrow> ('r \<Rightarrow> 'k) \<Rightarrow> ('l \<Rightarrow> 'r \<Rightarrow> 'o) \<Rightarrow> 'l list \<Rightarrow> 'r list \<Rightarrow> 'o list" where
  \<comment> \<open>\<^verbatim>\<open>pd.merge(left, right, how='inner')\<close>: the pairs of rows with equal keys\<close>
  "merge_inner kl kr mk ls rs =
     concat (map (\<lambda>l. map (\<lambda>r. mk l r) (filter (\<lambda>r. kr r = kl l) rs)) ls)"

section \<open>The source tables\<close>

record erp_row =
  erp_product_id :: "int option"
  erp_price :: num
  erp_stock_quantity :: num
  erp_stock_status :: string

record 'k liaison_row =
  lia_product_id :: "int option"
  lia_id_web :: "'k option"

record 'k web_row =
  web_sku :: "'k option"
  web_post_type :: string
  web_total_sales :: num

section \<open>etl_vins.py and etl_vins2.py\<close>

text \<open>
  The joined table \<^verbatim>\<open>df_final\<close> of \<^verbatim>\<open>charger_et_joindre_donnees\<close>, and the table
  \<^verbatim>\<open>transformer_et_enrichir_donnees\<close> returns, with its three computed columns. Both
  files coerce the web identity to \<^verbatim>\<open>Int64\<close>.
\<close>

record vin =
  product_id :: "int option"
  id_web :: "int option"
  price :: num
  stock_quantity :: num
  stock_status :: string
  total_sales :: num

record vin_enrichi = vin +
  CA_produit :: num
  Z_Score_Prix :: num
  est_millesime :: bool

definition charger_et_joindre_donnees ::
  "erp_row list \<Rightarrow> int web_row list \<Rightarrow> int liaison_row list \<Rightarrow> vin list" where
  "charger_et_joindre_donnees df_erp df_web df_liaison =
     (let df_merged =
            merge_left erp_product_id lia_product_id
              (\<lambda>e l. (e, case l of None \<Rightarrow> None | Some l' \<Rightarrow> lia_id_web l'))
              df_erp df_liaison;
          df_web_sales = map (\<lambda>w. (web_sku w, web_total_sales w)) df_web;
          df_final =
            merge_left snd fst
              (\<lambda>(e, i) w.
                 \<lparr>product_id = erp_product_id e, id_web = i, price = erp_price e,
                  stock_quantity = erp_stock_quantity e,
                  stock_status = erp_stock_status e,
                  total_sales = (case w of None \<Rightarrow> None | Some w' \<Rightarrow> snd w')\<rparr>)
              df_merged df_web_sales;
          df_filled = map (\<lambda>r. r\<lparr>total_sales := fillna 0 (total_sales r)\<rparr>) df_final
      in filter (\<lambda>r. price r \<noteq> None) df_filled)"

definition enrichir :: "vin \<Rightarrow> num \<Rightarrow> vin_enrichi" where
  \<comment> \<open>one row of the enriched table: the three columns the transformation adds\<close>
  "enrichir r z =
     \<lparr>product_id = product_id r, id_web = id_web r, price = price r,
      stock_quantity = stock_quantity r, stock_status = stock_status r,
      total_sales = total_sales r,
      CA_produit = fmul (price r) (total_sales r),
      Z_Score_Prix = z,
      est_millesime = gt_num z 2\<rparr>"

definition z_score_prix :: "vin list \<Rightarrow> num list" where
  \<comment> \<open>the column \<^verbatim>\<open>Z_Score_Prix\<close>: the constant 0 when \<^verbatim>\<open>std_price == 0\<close>, the
      scores of \<^verbatim>\<open>zscore\<close> otherwise (also when \<^verbatim>\<open>std_price\<close> is NaN)\<close>
  "z_score_prix df_coherent =
     (let std_price = series_std (map price df_coherent)
      in if std_price = Some 0 then map (\<lambda>_. Some 0) df_coherent
         else zscore (map price df_coherent))"

definition transformer_et_enrichir_donnees :: "vin list \<Rightarrow> vin_enrichi list" where
  "transformer_et_enrichir_donnees df_coherent =
     map (\<lambda>(r, z). enrichir r z) (zip df_coherent (z_score_prix df_coherent))"

definition exporter_rapports :: "vin_enrichi list \<Rightarrow> vin_enrichi list \<times> vin_enrichi list" where
  \<comment> \<open>etl_vins2.py: the tables written to vins_premium.csv and vins_ordinaires.csv\<close>
  "exporter_rapports df_enriched =
     (let seuil_millesime = 2;
          df_premium = filter (\<lambda>r. gt_num (Z_Score_Prix r) seuil_millesime) df_enriched;
          df_ordinaire = filter (\<lambda>r. le_num (Z_Score_Prix r) seuil_millesime) df_enriched
      in (df_premium, df_ordinaire))"

section \<open>etl_vins_fix.py\<close>

text \<open>
  The tables are taken as \<^verbatim>\<open>load_and_clean_data\<close> returns them: the web identity is a
  cleaned string, the inventory identity an \<^verbatim>\<open>Int64\<close>. \<^verbatim>\<open>df_final\<close> carries the columns
  of the three sources, named here with the table they come from (\<open>price_erp\<close> is the
  column \<^verbatim>\<open>price\<close>, \<open>total_sales_web\<close> the column \<^verbatim>\<open>total_sales\<close>);
  \<^verbatim>\<open>run_data_quality_checks\<close> adds the column CA to it in place.
\<close>

record produit =
  product_id_erp :: "int option"
  price_erp :: num
  stock_quantity_erp :: num
  stock_status_erp :: string
  id_web_liaison :: "string option"
  sku :: "string option"
  post_type :: string
  total_sales_web :: num

record produit_ca = produit +
  CA :: num

definition EXPECTED_CA :: real where
  "EXPECTED_CA = 7056860 / 100"

definition transform_and_join ::
  "string web_row list \<Rightarrow> erp_row list \<Rightarrow> string liaison_row list \<Rightarrow>
   produit list \<times> string web_row list \<times> erp_row list \<times> string liaison_row list" where
  "transform_and_join df_web df_erp df_liaison =
     (let df_web_products = filter (\<lambda>w. web_post_type w = ''product'') df_web;
          df_liaison_clean =
            filter (\<lambda>l. lia_id_web l \<noteq> None \<and> lia_product_id l \<noteq> None) df_liaison;
          df_merged_erp_liaison =
            merge_inner erp_product_id lia_product_id (\<lambda>e l. (e, l)) df_erp df_liaison_clean;
          df_final =
            merge_inner (\<lambda>(e, l). lia_id_web l) web_sku
              (\<lambda>(e, l) w.
                 \<lparr>product_id_erp = erp_product_id e, price_erp = erp_price e,
                  stock_quantity_erp = erp_stock_quantity e, stock_status_erp = erp_stock_status e,
                  id_web_liaison = lia_id_web l, sku = web_sku w,
                  post_type = web_post_type w, total_sales_web = web_total_sales w\<rparr>)
              df_merged_erp_liaison df_web_products
      in (df_final, df_web_products, df_erp, df_liaison_clean))"

definition ajouter_ca :: "produit \<Rightarrow> produit_ca" where
  \<comment> \<open>\<^verbatim>\<open>df_final['CA'] = df_final['price'] * df_final['total_sales']\<close>, one row\<close>
  "ajouter_ca r =
     \<lparr>product_id_erp = product_id_erp r, price_erp = price_erp r, stock_quantity_erp = stock_quantity_erp r,
      stock_status_erp = stock_status_erp r, id_web_liaison = id_web_liaison r, sku = sku r,
      post_type = post_type r, total_sales_web = total_sales_web r,
      CA = fmul (price_erp r) (total_sales_web r)\<rparr>"

definition run_data_quality_checks :: "produit list \<Rightarrow> produit_ca list \<times> bool" where
  \<comment> \<open>returns the table with its new column, and the verdict of the gate\<close>
  "run_data_quality_checks df_final =
     (let df_ca = map ajouter_ca df_final;
          calculated_ca = series_sum (map CA df_ca);
          final_count = length df_ca;
          expected_count = 714;
          status_count = (final_count = expected_count);
          is_ca_success = isclose calculated_ca EXPECTED_CA (1 / 100)
      in (df_ca, status_count \<and> is_ca_success))"

definition price_z_scores :: "produit_ca list \<Rightarrow> (produit_ca \<times> num) list" where
  \<comment> \<open>run_advanced_dq_checks, test 3: \<^verbatim>\<open>prices\<close> (the rows whose price is not null) and
      \<^verbatim>\<open>z_scores\<close>, side by side\<close>
  "price_z_scores df_final =
     (let prices = filter (\<lambda>r. price_erp r \<noteq> None) df_final;
          z_scores = zscore (map price_erp prices)
      in zip prices z_scores)"

definition outliers :: "produit_ca list \<Rightarrow> produit_ca list" where
  \<comment> \<open>run_advanced_dq_checks, test 3: the rows beyond the threshold in magnitude\<close>
  "outliers df_final =
     (let outlier_threshold = 3
      in map fst (filter (\<lambda>(r, z). case z of None \<Rightarrow> False
                                     | Some v \<Rightarrow> outlier_threshold < \<bar>v\<bar>)
                         (price_z_scores df_final)))"

definition run_advanced_dq_checks ::
  "produit_ca list \<Rightarrow> string web_row list \<Rightarrow> erp_row list \<Rightarrow> string liaison_row list \<Rightarrow>
   nat \<times> string web_row list" where
  "run_advanced_dq_checks df_final df_web_products df_erp df_liaison_clean =
     (let web_duplicates = length (filter id (duplicated (map web_sku df_web_products)));
          web_without_erp =
            filter (\<lambda>w. web_sku w \<notin> set (map lia_id_web df_liaison_clean)) df_web_products
      in (web_duplicates, web_without_erp))"

definition handle_anomalies ::
  "produit_ca list \<Rightarrow> string web_row list \<Rightarrow> nat \<Rightarrow> string web_row list \<Rightarrow> produit_ca list" where
  "handle_anomalies df_final df_web_products web_duplicates_count web_without_erp_df =
     (let df_web_products_cleaned =
            (if 0 < web_duplicates_count then drop_duplicates web_sku df_web_products
             else df_web_products);
          critical_unlinked_skus = map web_sku web_without_erp_df
      in if 0 < length critical_unlinked_skus
         then filter (\<lambda>r. sku r \<notin> set critical_unlinked_skus) df_final
         else df_final)"

definition etl_pipeline ::
  "string web_row list \<Rightarrow> erp_row list \<Rightarrow> string liaison_row list \<Rightarrow> produit_ca list option" where
  \<comment> \<open>\<open>None\<close>: the run stopped at the quality gate; \<open>Some t\<close>: \<open>t\<close> is the table
      announced as ready for the migration\<close>
  "etl_pipeline df_web df_erp df_liaison =
     (case transform_and_join df_web df_erp df_liaison of
        (df_final, df_web_products, df_erp_cleaned, df_liaison_cleaned) \<Rightarrow>
          (case run_data_quality_checks df_final of
             (df_ca, ok) \<Rightarrow>
               if \<not> ok then None
               else (case run_advanced_dq_checks df_ca df_web_products df_erp_cleaned
                            df_liaison_cleaned of
                       (web_duplicates_count, web_without_erp_df) \<Rightarrow>
                         Some (handle_anomalies df_ca df_web_products web_duplicates_count
                                 web_without_erp_df))))"

section \<open>The z-score of the specification\<close>


section \<open>Example tables\<close>

text \<open>
  Scenario A of the specification: two inventory rows, one web row, one link.
\<close>

definition erp_A :: "erp_row list" where
  "erp_A = [\<lparr>erp_product_id = Some 1, erp_price = Some 10, erp_stock_quantity = Some 5,
             erp_stock_status = ''instock''\<rparr>,
            \<lparr>erp_product_id = Some 2, erp_price = Some (21 / 2), erp_stock_quantity = Some 3,
             erp_stock_status = ''instock''\<rparr>]"

definition web_A :: "int web_row list" where
  "web_A = [\<lparr>web_sku = Some 1, web_post_type = ''product'', web_total_sales = Some 4\<rparr>]"

definition liaison_A :: "int liaison_row list" where
  "liaison_A = [\<lparr>lia_product_id = Some 1, lia_id_web = Some 1\<rparr>]"


text \<open>An inventory row whose price does not parse, linked to the web row of Scenario A.\<close>

definition erp_sans_prix :: "erp_row list" where
  "erp_sans_prix = [\<lparr>erp_product_id = Some 1, erp_price = None, erp_stock_quantity = Some 5,
                     erp_stock_status = ''instock''\<rparr>]"

text \<open>A web row that is not a product, and the link of an inventory row to it.\<close>

definition web_attachment :: "int web_row list" where
  "web_attachment =
     [\<lparr>web_sku = Some 5, web_post_type = ''attachment'', web_total_sales = Some 3\<rparr>]"

definition liaison_attachment :: "int liaison_row list" where
  "liaison_attachment = [\<lparr>lia_product_id = Some 1, lia_id_web = Some 5\<rparr>]"

text \<open>A joined row with a given price, for tables of prices.\<close>

definition vin_au_prix :: "real \<Rightarrow> vin" where
  "vin_au_prix p = \<lparr>product_id = Some 1, id_web = Some 1, price = Some p,
                    stock_quantity = Some 1, stock_status = ''instock'', total_sales = Some 1\<rparr>"

definition erp_au_prix :: "int \<Rightarrow> real \<Rightarrow> erp_row" where
  "erp_au_prix i p = \<lparr>erp_product_id = Some i, erp_price = Some p, erp_stock_quantity = Some 1,
                      erp_stock_status = ''instock''\<rparr>"

definition produit_au_prix :: "real \<Rightarrow> produit_ca" where
  "produit_au_prix p = \<lparr>product_id_erp = Some 1, price_erp = Some p, stock_quantity_erp = Some 1,
                        stock_status_erp = ''instock'', id_web_liaison = Some ''1'',
                        sku = Some ''1'', post_type = ''product'', total_sales_web = Some 1,
                        CA = Some p\<rparr>"

text \<open>Tables of prices: one price far below the others, one far above, two prices.\<close>

definition vins_bas :: "vin list" where
  "vins_bas = map vin_au_prix [10, 10, 10, 10, 10, 10, 10, 10, 10, 0]"

definition vins_haut :: "vin list" where
  "vins_haut = map vin_au_prix [10, 10, 10, 10, 10, 10, 10, 10, 10, 100]"


definition produits_13 :: "produit_ca list" where
  "produits_13 = [produit_au_prix 1, produit_au_prix 3]"

definition produits_27 :: "produit_ca list" where
  "produits_27 = map produit_au_prix
     [10, 10, 10, 10, 10, 10, 10, 10, 10, 10, 10, 10, 10, 10, 10, 10, 27]"

text \<open>
  Tables of 714 rows, the count the quality gate expects: 714 copies of a row whose
  revenue is 70569 / 714, and 714 copies of one web row with the identity 7, linked to an
  inventory row whose price makes the total revenue 70568.60.
\<close>

definition produit_70569 :: produit where
  "produit_70569 = \<lparr>product_id_erp = Some 1, price_erp = Some (70569 / 714),
                     stock_quantity_erp = Some 1, stock_status_erp = ''instock'',
                     id_web_liaison = Some ''1'', sku = Some ''1'', post_type = ''product'',
                     total_sales_web = Some 1\<rparr>"

definition web_7 :: "string web_row" where
  "web_7 = \<lparr>web_sku = Some ''7'', web_post_type = ''product'', web_total_sales = Some 1\<rparr>"

definition erp_7 :: "erp_row list" where
  "erp_7 = [\<lparr>erp_product_id = Some 1, erp_price = Some (7056860 / 71400),
             erp_stock_quantity = Some 1, erp_stock_status = ''instock''\<rparr>]"

definition liaison_7 :: "string liaison_row list" where
  "liaison_7 = [\<lparr>lia_product_id = Some 1, lia_id_web = Some ''7''\<rparr>]"

definition produit_7 :: produit_ca where
  "produit_7 = \<lparr>product_id_erp = Some 1, price_erp = Some (7056860 / 71400),
                 stock_quantity_erp = Some 1, stock_status_erp = ''instock'',
                 id_web_liaison = Some ''7'', sku = Some ''7'', post_type = ''product'',
                 total_sales_web = Some 1, CA = Some (7056860 / 71400)\<rparr>"

section \<open>Joins\<close>

lemma set_left_matches:
  "set (case filter (\<lambda>r. kr r = k) rs of [] \<Rightarrow> [mk None]
        | m # ms \<Rightarrow> map (\<lambda>r. mk (Some r)) (m # ms)) =
   (if filter (\<lambda>r. kr r = k) rs = [] then {mk None}
    else (\<lambda>r. mk (Some r)) ` {r \<in> set rs. kr r = k})"
proof (cases "filter (\<lambda>r. kr r = k) rs")
  case Nil
  then show ?thesis by simp
next
  case (Cons m ms)
  have "set (map (\<lambda>r. mk (Some r)) (filter (\<lambda>r. kr r = k) rs)) =
        (\<lambda>r. mk (Some r)) ` {r \<in> set rs. kr r = k}"
    by auto
  then show ?thesis unfolding Cons by simp
qed

lemma in_merge_left:
  "x \<in> set (merge_left kl kr mk ls rs) \<longleftrightarrow>
     (\<exists>l\<in>set ls. (x = mk l None \<and> (\<forall>r\<in>set rs. kr r \<noteq> kl l)) \<or>
                 (\<exists>r\<in>set rs. kr r = kl l \<and> x = mk l (Some r)))"
  unfolding merge_left_def set_concat set_map
  by (auto simp: set_left_matches filter_empty_conv split: if_splits)

lemma in_merge_inner:
  "x \<in> set (merge_inner kl kr mk ls rs) \<longleftrightarrow>
     (\<exists>l\<in>set ls. \<exists>r\<in>set rs. kr r = kl l \<and> x = mk l r)"
  unfolding merge_inner_def by auto

lemma in_transformer:
  assumes "r' \<in> set (transformer_et_enrichir_donnees df)"
  shows "\<exists>r z. r \<in> set df \<and> r' = enrichir r z"
proof -
  from assms obtain r z where "(r, z) \<in> set (zip df (z_score_prix df))" "r' = enrichir r z"
    unfolding transformer_et_enrichir_donnees_def by auto
  then show ?thesis by (auto dest: set_zip_leftD)
qed

lemma in_charger:
  assumes "r \<in> set (charger_et_joindre_donnees df_erp df_web df_liaison)"
  shows "price r \<noteq> None"
    and "total_sales r \<noteq> None"
    and "id_web r \<notin> set (map web_sku df_web) \<Longrightarrow> total_sales r = Some 0"
proof -
  define J where "J = merge_left snd fst
              (\<lambda>(e, i) w.
                 \<lparr>product_id = erp_product_id e, id_web = i, price = erp_price e,
                  stock_quantity = erp_stock_quantity e,
                  stock_status = erp_stock_status e,
                  total_sales = (case w of None \<Rightarrow> None | Some w' \<Rightarrow> snd w')\<rparr>)
              (merge_left erp_product_id lia_product_id
              (\<lambda>e l. (e, case l of None \<Rightarrow> None | Some l' \<Rightarrow> lia_id_web l'))
              df_erp df_liaison) (map (\<lambda>w. (web_sku w, web_total_sales w)) df_web)"
  have eq: "charger_et_joindre_donnees df_erp df_web df_liaison =
        filter (\<lambda>r. price r \<noteq> None) (map (\<lambda>r. r\<lparr>total_sales := fillna 0 (total_sales r)\<rparr>) J)"
    unfolding charger_et_joindre_donnees_def Let_def J_def by (rule refl)
  from assms have p: "price r \<noteq> None"
    and "r \<in> set (map (\<lambda>r. r\<lparr>total_sales := fillna 0 (total_sales r)\<rparr>) J)"
    unfolding eq by simp_all
  then obtain m where m: "m \<in> set J" and r: "r = m\<lparr>total_sales := fillna 0 (total_sales m)\<rparr>"
    by auto
  show "price r \<noteq> None" by (rule p)
  show "total_sales r \<noteq> None" using r by (simp add: fillna_def split: option.splits)
  show "total_sales r = Some 0" if "id_web r \<notin> set (map web_sku df_web)"
  proof -
    from m have "total_sales m = None \<or> (\<exists>w\<in>set df_web. web_sku w = id_web m)"
      unfolding J_def in_merge_left by auto
    then show ?thesis
    proof
      assume "total_sales m = None"
      then show ?thesis using r by (simp add: fillna_def)
    next
      assume "\<exists>w\<in>set df_web. web_sku w = id_web m"
      then obtain w where w: "w \<in> set df_web" "web_sku w = id_web m" by blast
      have "id_web r = web_sku w" using r w by simp
      then have "id_web r \<in> set (map web_sku df_web)" using w(1) by simp
      with that show ?thesis by simp
    qed
  qed
qed


lemma transform_and_join_products:
  assumes "r \<in> set (fst (transform_and_join df_web df_erp df_liaison))"
  shows "post_type r = ''product''"
    and "sku r \<noteq> None"
    and "sku r \<in> set (map lia_id_web (snd (snd (snd (transform_and_join df_web df_erp df_liaison)))))"
proof -
  from assms obtain e l w where
    l: "l \<in> set df_liaison" "lia_id_web l \<noteq> None" "lia_product_id l \<noteq> None" and
    w: "w \<in> set df_web" "web_post_type w = ''product''" "web_sku w = lia_id_web l" and
    r: "sku r = web_sku w" "post_type r = web_post_type w"
    by (auto simp: transform_and_join_def Let_def in_merge_inner)
  show "post_type r = ''product''" using r w by simp
  show "sku r \<noteq> None" using r w l by simp
  have "l \<in> set (snd (snd (snd (transform_and_join df_web df_erp df_liaison))))"
    using l by (simp add: transform_and_join_def Let_def)
  moreover have "sku r = lia_id_web l" using r w by simp
  ultimately show "sku r \<in> set (map lia_id_web (snd (snd (snd (transform_and_join df_web df_erp df_liaison)))))"
    by simp
qed

section \<open>Columns\<close>

lemma length_dropna_le: "length (dropna col) \<le> length col"
  by (induction col) (auto simp: dropna_def split: option.splits)

lemma dropna_Cons_Some: "dropna (Some x # col) = x # dropna col"
  by (simp add: dropna_def)


lemma dropna_Nil: "dropna [] = []"
  by (simp add: dropna_def)

lemma dropna_all_Some: "None \<notin> set col \<Longrightarrow> map Some (dropna col) = col"
proof (induction col)
  case Nil
  show ?case by (simp add: dropna_Nil)
next
  case (Cons a col)
  then show ?case by (cases a) (simp_all add: dropna_Cons_Some)
qed

lemma dropna_map_Some: "dropna (map Some xs) = xs"
  by (induction xs) (simp_all add: dropna_Nil dropna_Cons_Some)

lemma length_dropna_eq: "None \<notin> set col \<Longrightarrow> length (dropna col) = length col"
  using dropna_all_Some [of col] by (metis length_map)

lemma length_zscore: "length (zscore col) = length col"
  using length_dropna_le [of col] by (simp add: zscore_def Let_def)

lemma length_z_score_prix: "length (z_score_prix df) = length df"
  by (simp add: z_score_prix_def length_zscore)

lemma map_zip_fst: "length xs = length ys \<Longrightarrow> map (\<lambda>(x, y). f x) (zip xs ys) = map f xs"
  by (induction xs ys rule: list_induct2) auto

lemma map_zip_snd: "length xs = length ys \<Longrightarrow> map (\<lambda>(x, y). g y) (zip xs ys) = map g ys"
  by (induction xs ys rule: list_induct2) auto

lemma CA_produit_transformer:
  "map CA_produit (transformer_et_enrichir_donnees df) =
     map (\<lambda>r. fmul (price r) (total_sales r)) df"
  using map_zip_fst [OF length_z_score_prix [symmetric], of "\<lambda>r. fmul (price r) (total_sales r)" df]
  by (simp add: transformer_et_enrichir_donnees_def enrichir_def case_prod_unfold comp_def)

lemma Z_Score_Prix_transformer:
  "map Z_Score_Prix (transformer_et_enrichir_donnees df) = z_score_prix df"
  using map_zip_snd [OF length_z_score_prix [symmetric], of "\<lambda>z. z" df]
  by (simp add: transformer_et_enrichir_donnees_def enrichir_def case_prod_unfold comp_def)

lemma est_millesime_transformer:
  "map est_millesime (transformer_et_enrichir_donnees df) = map (\<lambda>z. gt_num z 2) (z_score_prix df)"
  using map_zip_snd [OF length_z_score_prix [symmetric], of "\<lambda>z. gt_num z 2" df]
  by (simp add: transformer_et_enrichir_donnees_def enrichir_def case_prod_unfold comp_def)

section \<open>Mean, deviation and z-score\<close>


lemma sq_dev_eq_0_iff: "sq_dev xs = 0 \<longleftrightarrow> (\<forall>x\<in>set xs. x = mean xs)"
proof -
  have "sq_dev xs = 0 \<longleftrightarrow> (\<forall>y\<in>set (map (\<lambda>x. (x - mean xs)\<^sup>2) xs). y = 0)"
    unfolding sq_dev_def by (rule sum_list_nonneg_eq_0_iff) auto
  then show ?thesis by auto
qed



lemma mean_constant:
  assumes "\<forall>x\<in>set xs. x = c" "xs \<noteq> []"
  shows "mean xs = c"
proof -
  have "xs = replicate (length xs) c" using assms(1) by (simp add: replicate_length_same)
  then have "sum_list xs = real (length xs) * c" by (metis sum_list_replicate)
  then show ?thesis using assms(2) by (simp add: mean_def)
qed

lemma sq_dev_constant:
  assumes "\<forall>x\<in>set xs. x = c"
  shows "sq_dev xs = 0"
proof (cases "xs = []")
  case True
  then show ?thesis by (simp add: sq_dev_def)
next
  case False
  with assms have "mean xs = c" by (rule mean_constant)
  with assms show ?thesis unfolding sq_dev_eq_0_iff by simp
qed



lemma z_score_prix_constant:
  assumes "\<forall>x\<in>set (dropna (map price df)). x = c" "2 \<le> length (dropna (map price df))"
  shows "z_score_prix df = map (\<lambda>_. Some 0) df"
proof -
  have "sq_dev (dropna (map price df)) = 0" using assms(1) by (rule sq_dev_constant)
  then have "series_std (map price df) = Some 0"
    using assms(2) by (simp add: series_std_def Let_def)
  then show ?thesis by (simp add: z_score_prix_def)
qed

lemma charger_no_null_price:
  "None \<notin> set (map price (charger_et_joindre_donnees df_erp df_web df_liaison))"
  using in_charger(1) by fastforce

section \<open>The pipelines on the example tables\<close>

lemma sqrt_9: "sqrt 9 = 3"
  using real_sqrt_abs [of 3] by simp

lemma charger_A: "charger_et_joindre_donnees erp_A web_A liaison_A =
   [\<lparr>product_id = Some 1, id_web = Some 1, price = Some 10, stock_quantity = Some 5,
     stock_status = ''instock'', total_sales = Some 4\<rparr>,
    \<lparr>product_id = Some 2, id_web = None, price = Some (21 / 2), stock_quantity = Some 3,
     stock_status = ''instock'', total_sales = Some 0\<rparr>]"
  by (simp add: charger_et_joindre_donnees_def merge_left_def erp_A_def web_A_def liaison_A_def
        fillna_def del: not_None_eq)

lemma charger_sans_web:
  "charger_et_joindre_donnees (map (\<lambda>(i, p). erp_au_prix i p) ips) [] [] =
     map (\<lambda>(i, p). \<lparr>product_id = Some i, id_web = None, price = Some p,
                    stock_quantity = Some 1, stock_status = ''instock'', total_sales = Some 0\<rparr>) ips"
  by (induction ips)
     (auto simp: charger_et_joindre_donnees_def merge_left_def erp_au_prix_def fillna_def)

lemma z_bas: "z_score_prix vins_bas =
   [Some (1/3), Some (1/3), Some (1/3), Some (1/3), Some (1/3), Some (1/3), Some (1/3),
    Some (1/3), Some (1/3), Some (- 3)]"
  by (simp add: vins_bas_def z_score_prix_def series_std_def zscore_def Let_def vin_au_prix_def
      dropna_Cons_Some dropna_Nil mean_def sq_dev_def fdiv_def power2_eq_square sqrt_9)

lemma charger_one_row:
  "charger_et_joindre_donnees [erp_au_prix 1 10] [] [] =
     [\<lparr>product_id = Some 1, id_web = None, price = Some 10, stock_quantity = Some 1,
       stock_status = ''instock'', total_sales = Some 0\<rparr>]"
  using charger_sans_web [of "[(1, 10)]"] by simp

lemma z_single: "price r = Some p \<Longrightarrow> z_score_prix [r] = [None]"
  by (simp add: z_score_prix_def series_std_def zscore_def Let_def
      dropna_Cons_Some dropna_Nil mean_def sq_dev_def fdiv_def)
lemma sqrt_729: "sqrt 729 = 27"
  using real_sqrt_abs [of 27] by simp

lemma sqrt_16: "sqrt 16 = 4"
  using real_sqrt_abs [of 4] by simp

lemma z_haut: "z_score_prix vins_haut =
   [Some (- (1/3)), Some (- (1/3)), Some (- (1/3)), Some (- (1/3)), Some (- (1/3)),
    Some (- (1/3)), Some (- (1/3)), Some (- (1/3)), Some (- (1/3)), Some 3]"
  by (simp add: vins_haut_def z_score_prix_def series_std_def zscore_def Let_def vin_au_prix_def
      dropna_Cons_Some dropna_Nil mean_def sq_dev_def fdiv_def power2_eq_square sqrt_729)

lemma price_z_scores_27:
  "map snd (price_z_scores produits_27) =
     [Some (- (1/4)), Some (- (1/4)), Some (- (1/4)), Some (- (1/4)), Some (- (1/4)),
      Some (- (1/4)), Some (- (1/4)), Some (- (1/4)), Some (- (1/4)), Some (- (1/4)),
      Some (- (1/4)), Some (- (1/4)), Some (- (1/4)), Some (- (1/4)), Some (- (1/4)),
      Some (- (1/4)), Some 4]"
  by (simp add: produits_27_def price_z_scores_def zscore_def Let_def produit_au_prix_def
      dropna_Cons_Some dropna_Nil mean_def sq_dev_def fdiv_def power2_eq_square sqrt_16)

lemma outliers_27: "outliers produits_27 = [produit_au_prix 27]"
  by (simp add: outliers_def produits_27_def price_z_scores_def zscore_def Let_def produit_au_prix_def
      dropna_Cons_Some dropna_Nil mean_def sq_dev_def fdiv_def power2_eq_square sqrt_16)






lemma z_produits_13: "map snd (price_z_scores produits_13) = [Some (- 1), Some 1]"
  by (simp add: produits_13_def price_z_scores_def zscore_def Let_def produit_au_prix_def
      dropna_Cons_Some dropna_Nil mean_def sq_dev_def fdiv_def power2_eq_square)

lemma dropna_replicate_Some: "dropna (replicate n (Some c)) = replicate n c"
  by (induction n) (simp_all add: dropna_Nil dropna_Cons_Some)

lemma series_sum_replicate: "series_sum (replicate n (Some c)) = real n * c"
  by (simp add: series_sum_def dropna_replicate_Some sum_list_replicate)

lemma gate_iff:
  "snd (run_data_quality_checks df_final) \<longleftrightarrow>
     length df_final = 714 \<and>
     \<bar>series_sum (map (\<lambda>r. fmul (price_erp r) (total_sales_web r)) df_final) - 7056860 / 100\<bar>
       \<le> 1 / 100 + 7056860 / 10000000"
  by (simp add: run_data_quality_checks_def Let_def isclose_def EXPECTED_CA_def ajouter_ca_def
      comp_def)

lemma etl_pipeline_halts:
  "etl_pipeline df_web df_erp df_liaison = None \<longleftrightarrow>
     \<not> snd (run_data_quality_checks (fst (transform_and_join df_web df_erp df_liaison)))"
proof -
  obtain a b c d where t: "transform_and_join df_web df_erp df_liaison = (a, b, c, d)"
    by (cases "transform_and_join df_web df_erp df_liaison") auto
  obtain e ok where q: "run_data_quality_checks a = (e, ok)"
    by (cases "run_data_quality_checks a") auto
  show ?thesis by (simp add: etl_pipeline_def t q split: prod.splits)
qed

lemma scenario_C:
  "isclose (7056861 / 100) EXPECTED_CA (1 / 100)" "\<not> isclose 70600 EXPECTED_CA (1 / 100)"
  by (simp_all add: isclose_def EXPECTED_CA_def)

lemma duplicated_from_replicate:
  "length (filter id (duplicated_from seen (replicate n x))) =
     (if x \<in> set seen then n else n - 1)"
  by (induction n arbitrary: seen) auto

lemma transform_and_join_7:
  "transform_and_join (replicate n web_7) erp_7 liaison_7 =
     (replicate n \<lparr>product_id_erp = Some 1, price_erp = Some (7056860 / 71400),
                 stock_quantity_erp = Some 1, stock_status_erp = ''instock'',
                 id_web_liaison = Some ''7'', sku = Some ''7'', post_type = ''product'',
                 total_sales_web = Some 1\<rparr>,
      replicate n web_7, erp_7, liaison_7)"
  by (simp add: transform_and_join_def merge_inner_def web_7_def erp_7_def liaison_7_def
      filter_replicate del: not_None_eq)

lemma scenario_B:
  "run_advanced_dq_checks [produit_7, produit_7] [web_7, web_7] erp_7 liaison_7 = (1, [])"
  "handle_anomalies [produit_7, produit_7] [web_7, web_7] 1 [] = [produit_7, produit_7]"
  "drop_duplicates web_sku [web_7, web_7] = [web_7]"
  by (simp_all add: run_advanced_dq_checks_def handle_anomalies_def duplicated_def
      drop_duplicates_def web_7_def liaison_7_def)

lemma exporter_rapports_partition:
  assumes "None \<notin> set (map Z_Score_Prix df)"
  shows "fst (exporter_rapports df) = filter (\<lambda>r. gt_num (Z_Score_Prix r) 2) df"
    and "snd (exporter_rapports df) = filter (\<lambda>r. \<not> gt_num (Z_Score_Prix r) 2) df"
proof -
  show "fst (exporter_rapports df) = filter (\<lambda>r. gt_num (Z_Score_Prix r) 2) df"
    by (simp add: exporter_rapports_def)
  have "le_num (Z_Score_Prix r) 2 = (\<not> gt_num (Z_Score_Prix r) 2)" if "r \<in> set df" for r
  proof (cases "Z_Score_Prix r")
    case None
    with that assms show ?thesis by force
  next
    case (Some z)
    then show ?thesis by (auto simp: le_num_def gt_num_def)
  qed
  then show "snd (exporter_rapports df) = filter (\<lambda>r. \<not> gt_num (Z_Score_Prix r) 2) df"
    by (simp add: exporter_rapports_def cong: filter_cong)
qed

lemma equal_prices_zero_zscore:
  assumes "\<forall>x\<in>set (dropna (map price df)). x = c" "2 \<le> length (dropna (map price df))"
  shows "map Z_Score_Prix (transformer_et_enrichir_donnees df) = map (\<lambda>_. Some 0) df"
  unfolding Z_Score_Prix_transformer using assms by (rule z_score_prix_constant)

lemma migratable_rows_linked:
  assumes "etl_pipeline df_web df_erp df_liaison = Some t" "r \<in> set t"
  shows "sku r \<in> set (map lia_id_web
           (filter (\<lambda>l. lia_id_web l \<noteq> None \<and> lia_product_id l \<noteq> None) df_liaison))"
proof -
  obtain a b c d where tj: "transform_and_join df_web df_erp df_liaison = (a, b, c, d)"
    by (cases "transform_and_join df_web df_erp df_liaison") auto
  obtain e ok where q: "run_data_quality_checks a = (e, ok)"
    by (cases "run_data_quality_checks a") auto
  obtain n wo where adv: "run_advanced_dq_checks e b c d = (n, wo)"
    by (cases "run_advanced_dq_checks e b c d") auto
  from assms(1) have t: "t = handle_anomalies e b n wo"
    by (simp add: etl_pipeline_def tj q adv split: if_splits)
  have e: "e = map ajouter_ca a" using q by (auto simp: run_data_quality_checks_def Let_def)
  have "r \<in> set e" using assms(2) unfolding t by (auto simp: handle_anomalies_def split: if_splits)
  then obtain r0 where r0: "r0 \<in> set a" "r = ajouter_ca r0" unfolding e by auto
  have d: "d = filter (\<lambda>l. lia_id_web l \<noteq> None \<and> lia_product_id l \<noteq> None) df_liaison"
    using tj by (auto simp: transform_and_join_def Let_def)
  have "r0 \<in> set (fst (transform_and_join df_web df_erp df_liaison))" using r0 tj by simp
  from transform_and_join_products(3) [OF this]
  have "sku r0 \<in> set (map lia_id_web d)" by (simp add: tj)
  then show ?thesis using r0(2) d by (simp add: ajouter_ca_def)
qed


section \<open>Revenue\<close>



section \<open>The filter on the product rows\<close>

text \<open>
  The join of etl_vins_fix.py keeps product rows only, and every row it returns has a web
  identity of the cleaned linkage table: this is \<open>transform_and_join_products\<close> above.
\<close>

text \<open>
  C3. The reconciled table holds no row that comes from a web row whose \<^verbatim>\<open>post_type\<close> is
  not "product". \<^verbatim>\<open>charger_et_joindre_donnees\<close> (etl_vins.py, etl_vins2.py) never reads the
  column: an inventory row linked to an attachment row of the web table is joined with it,
  and takes its sales and a revenue from it.
\<close>

theorem charger_joins_non_product_row:
  "charger_et_joindre_donnees [erp_au_prix 1 10] web_attachment liaison_attachment =
     [\<lparr>product_id = Some 1, id_web = Some 5, price = Some 10, stock_quantity = Some 1,
       stock_status = ''instock'', total_sales = Some 3\<rparr>]
   \<and> map CA_produit (transformer_et_enrichir_donnees
        (charger_et_joindre_donnees [erp_au_prix 1 10] web_attachment liaison_attachment)) =
     [Some 30]"
proof -
  have "charger_et_joindre_donnees [erp_au_prix 1 10] web_attachment liaison_attachment =
     [\<lparr>product_id = Some 1, id_web = Some 5, price = Some 10, stock_quantity = Some 1,
       stock_status = ''instock'', total_sales = Some 3\<rparr>]"
    by (simp add: charger_et_joindre_donnees_def merge_left_def erp_au_prix_def
        web_attachment_def liaison_attachment_def fillna_def)
  then show ?thesis by (simp add: CA_produit_transformer fmul_def)
qed

section \<open>Rows without a price\<close>

text \<open>
  The claim C6 says that a row whose price is null after normalisation stays in the
  reconciled table. \<^verbatim>\<open>charger_et_joindre_donnees\<close> drops it: the one inventory row below
  has no price, it is linked and matched, and the table is empty.
\<close>

theorem null_price_row_dropped:
  "charger_et_joindre_donnees erp_sans_prix web_A liaison_A = []"
  by (simp add: charger_et_joindre_donnees_def merge_left_def erp_sans_prix_def web_A_def
        liaison_A_def fillna_def)

text \<open>
  C6, as the code has it. Every row of the reconciled table of etl_vins.py and etl_vins2.py
  has a price: the rows whose price is null after normalisation are removed, so the
  population of the z-score is the whole table.
\<close>

theorem reconciled_prices_not_null:
  "(\<forall>r \<in> set (charger_et_joindre_donnees df_erp df_web df_liaison). price r \<noteq> None)
   \<and> length (dropna (map price (charger_et_joindre_donnees df_erp df_web df_liaison))) =
       length (charger_et_joindre_donnees df_erp df_web df_liaison)"
  using length_dropna_eq [OF charger_no_null_price [of df_erp df_web df_liaison]]
    in_charger(1) [of _ df_erp df_web df_liaison]
  by simp

theorem reconciled_prices_not_null_witness:
  "map price (charger_et_joindre_donnees erp_A web_A liaison_A) = [Some 10, Some (21 / 2)]
   \<and> length (dropna (map price (charger_et_joindre_donnees erp_A web_A liaison_A))) = 2"
  using reconciled_prices_not_null [of erp_A web_A liaison_A]
  by (simp add: charger_A)

section \<open>The z-score of a single row\<close>

text \<open>
  C8. When all the prices are equal every z-score is 0. The test \<^verbatim>\<open>std_price == 0\<close> is
  there for this case; on a table of one row \<^verbatim>\<open>std_price\<close> is NaN, the test is false,
  and the z-score of the row is the NaN of 0 / 0.
\<close>

theorem single_row_zscore_is_nan:
  "map Z_Score_Prix (transformer_et_enrichir_donnees
      (charger_et_joindre_donnees [erp_au_prix 1 10] [] [])) = [None]"
  by (simp add: Z_Score_Prix_transformer charger_one_row z_single)

text \<open>
  C10. The premium rows (z-score above 2) and the ordinary rows (z-score at most 2) are a
  partition of the table handed to the export. The row of a one-row table has a NaN
  z-score: both comparisons are false on it, and it is in neither table.
\<close>

theorem single_row_in_neither_export:
  "length (transformer_et_enrichir_donnees
      (charger_et_joindre_donnees [erp_au_prix 1 10] [] [])) = 1
   \<and> exporter_rapports (transformer_et_enrichir_donnees
      (charger_et_joindre_donnees [erp_au_prix 1 10] [] [])) = ([], [])"
  by (simp add: charger_one_row transformer_et_enrichir_donnees_def exporter_rapports_def
      enrichir_def gt_num_def le_num_def z_single)

section \<open>Remediation\<close>


section \<open>The standard deviation of the z-score\<close>




section \<open>The outlier flag\<close>

text \<open>
  The claim C9 says that the flag is set when the magnitude of the z-score is beyond the
  threshold. In the table \<open>vins_bas\<close> the last price has the z-score -3, of magnitude 3,
  and \<^verbatim>\<open>est_millesime\<close> is false on it.
\<close>

theorem negative_outlier_not_flagged:
  "last (map Z_Score_Prix (transformer_et_enrichir_donnees vins_bas)) = Some (- 3)
   \<and> last (map est_millesime (transformer_et_enrichir_donnees vins_bas)) = False
   \<and> (2::real) < \<bar>- 3\<bar>"
  by (simp add: Z_Score_Prix_transformer est_millesime_transformer z_bas gt_num_def)

text \<open>
  C9, as the code has it. \<^verbatim>\<open>est_millesime\<close> is true exactly when the z-score of the row
  is a number strictly above 2: the test is on the signed score, a vintage wine is a dear
  one. The audit of etl_vins_fix.py does take the magnitude: its outliers are the rows
  with a price whose z-score is beyond 3 in absolute value.
\<close>

theorem outlier_flag_is_one_sided:
  "(\<forall>r \<in> set (transformer_et_enrichir_donnees df).
      est_millesime r = (\<exists>z. Z_Score_Prix r = Some z \<and> 2 < z))
   \<and> set (outliers df_final) =
       {r. \<exists>z. (r, Some z) \<in> set (price_z_scores df_final) \<and> 3 < \<bar>z\<bar>}"
proof
  show "\<forall>r \<in> set (transformer_et_enrichir_donnees df).
      est_millesime r = (\<exists>z. Z_Score_Prix r = Some z \<and> 2 < z)"
  proof
    fix r'
    assume "r' \<in> set (transformer_et_enrichir_donnees df)"
    then obtain r z where "r' = enrichir r z" using in_transformer by blast
    then show "est_millesime r' = (\<exists>z. Z_Score_Prix r' = Some z \<and> 2 < z)"
      by (cases z) (simp_all add: enrichir_def gt_num_def)
  qed
  show "set (outliers df_final) =
       {r. \<exists>z. (r, Some z) \<in> set (price_z_scores df_final) \<and> 3 < \<bar>z\<bar>}"
    by (force simp: outliers_def Let_def split: option.splits)
qed

theorem outlier_flag_is_one_sided_witness:
  "map est_millesime (transformer_et_enrichir_donnees vins_haut) =
     [False, False, False, False, False, False, False, False, False, True]
   \<and> map Z_Score_Prix (transformer_et_enrichir_donnees vins_haut) ! 9 = Some 3
   \<and> outliers produits_27 = [produit_au_prix 27]
   \<and> map snd (price_z_scores produits_27) ! 16 = Some 4"
  using outlier_flag_is_one_sided [of vins_haut produits_27]
  by (simp add: Z_Score_Prix_transformer est_millesime_transformer z_haut gt_num_def
      outliers_27 price_z_scores_27)

section \<open>The quality gate\<close>

text \<open>
  The gate passes exactly when the table has 714 rows and the total revenue is within
  0.01 + 1e-05 * 70568.60 of 70568.60 (\<open>gate_iff\<close>); a run stops before the audit, the
  remediation and the migration exactly when the gate fails (\<open>etl_pipeline_halts\<close>); the
  totals 70568.61 and 70600.00 of Scenario C pass and fail (\<open>scenario_C\<close>).
\<close>

text \<open>
  C2. The check of the total reports success exactly when the total is within 0.01 of the
  expected 70568.60. \<^verbatim>\<open>np.isclose\<close> is given \<^verbatim>\<open>atol=0.01\<close> and keeps its relative
  tolerance: a table of 714 rows whose total is 70569.00, forty cents off, passes the gate.
\<close>

theorem gate_passes_forty_cents_off:
  "snd (run_data_quality_checks (replicate 714 produit_70569))
   \<and> series_sum (map CA (fst (run_data_quality_checks (replicate 714 produit_70569)))) = 70569
   \<and> \<not> \<bar>70569 - EXPECTED_CA\<bar> \<le> 1 / 100"
  by (simp add: run_data_quality_checks_def Let_def isclose_def EXPECTED_CA_def ajouter_ca_def
      produit_70569_def fmul_def series_sum_replicate)

section \<open>Duplicates after the remediation\<close>

text \<open>
  Every row of the table the pipeline announces for the migration has a web identity of
  the cleaned linkage table: this is \<open>migratable_rows_linked\<close> above. On two web rows
  with the identity 7 (Scenario B) the audit counts one duplicate, \<^verbatim>\<open>drop_duplicates\<close>
  keeps the first row, and the remediation returns both joined rows (\<open>scenario_B\<close>).
\<close>

text \<open>
  C4. The migratable table has no two rows with the same web identity. The remediation
  removes the duplicates from a copy of the web table that it never uses again: on a web
  table of 714 product rows with the identity 7, the audit counts 713 duplicates and the
  migratable table has 714 rows with the identity 7.
\<close>

theorem pipeline_keeps_duplicate_skus:
  "etl_pipeline (replicate 714 web_7) erp_7 liaison_7 = Some (replicate 714 produit_7)
   \<and> sku produit_7 = Some ''7''
   \<and> fst (run_advanced_dq_checks (replicate 714 produit_7) (replicate 714 web_7) erp_7 liaison_7)
       = 713"
proof -
  have dq: "run_data_quality_checks (fst (transform_and_join (replicate 714 web_7) erp_7 liaison_7))
     = (replicate 714 produit_7, True)"
    by (simp add: transform_and_join_7 run_data_quality_checks_def Let_def isclose_def
        EXPECTED_CA_def ajouter_ca_def produit_7_def fmul_def series_sum_replicate)
  have adv: "run_advanced_dq_checks (replicate 714 produit_7) (replicate 714 web_7) erp_7 liaison_7
     = (713, [])"
    by (simp add: run_advanced_dq_checks_def Let_def duplicated_def duplicated_from_replicate
        filter_replicate web_7_def liaison_7_def)
  have "etl_pipeline (replicate 714 web_7) erp_7 liaison_7 =
     Some (handle_anomalies (replicate 714 produit_7) (replicate 714 web_7) 713 [])"
    using dq adv by (simp add: etl_pipeline_def transform_and_join_7)
  then show ?thesis using adv by (simp add: handle_anomalies_def produit_7_def)
qed

end
